theory Spec2Isabelle
  imports Complex_Main "HOL-Library.Sublist"
begin

section \<open>Data model\<close>

text \<open>
  A JavaScript \<open>number\<close> is modelled as an exact rational: the arithmetic of the scoring
  code (\<open>+\<close>, \<open>*\<close>, \<open>/\<close>) is exact in the model, the binary64 representation error of the
  host is not part of it. A string is a list of bytes (UTF-8); every pattern the code
  matches against is ASCII, and no byte of a multi-byte UTF-8 sequence is ASCII.
  \<open>null\<close> and \<open>undefined\<close> are both \<open>None\<close>: the only operators the code applies to
  them, \<open>?.\<close> and \<open>??\<close>, do not tell them apart.
\<close>

type_synonym number = rat

text \<open>\<open>{ capacity: string; points: number }\<close>\<close>

record BehaviorRating =
  capacity :: string
  points :: number

text \<open>
  The evaluation object, as the database layer hands it to the API route and as the
  clients declare it: every field may be absent.
\<close>

record Evaluation =
  behaviorRatings :: "BehaviorRating list option"
  totalScore :: "number option"
  researchPts :: "number option"
  universityServicePts :: "number option"
  communityServicePts :: "number option"
  teachingQualityPts :: "number option"

text \<open>The enumeration \<open>EvaluationStatus\<close>: \<open>new\<close>, \<open>in_progress\<close>, \<open>complete\<close>, \<open>sent\<close>.\<close>

datatype EvaluationStatus = NEW | IN_PROGRESS | COMPLETE | SENT

text \<open>
  An appraisal row with the relations the code reads: the faculty member's name, the
  cycle's end date (a time value, milliseconds since the epoch), the appraisal's own
  \<open>totalScore\<close> column (here \<open>appraisalTotalScore\<close>, to keep it apart from the evaluation's)
  and the evaluations, newest first.
\<close>

record Appraisal =
  facultyName :: string
  status :: EvaluationStatus
  cycleEndDate :: int
  appraisalTotalScore :: "number option"
  evaluations :: "Evaluation list"

text \<open>\<open>{ ...a, evaluation: ... }\<close>: the appraisal extended by the field \<open>evaluation\<close>.\<close>

record AppraisalWithDetails = Appraisal +
  evaluation :: "Evaluation option"

section \<open>Capacity normalizer (API route)\<close>

text \<open>
  \<open>/keyword/i.test(s)\<close>: the pattern is a plain sequence of characters, the regular
  expression has neither the global nor the sticky flag, so \<open>test\<close> tries every start
  position of \<open>s\<close> and compares character by character after \<open>Canonicalize\<close>, which
  maps a character to its upper case; a character outside ASCII is never mapped to an
  ASCII one.
\<close>

definition Canonicalize :: "char \<Rightarrow> char" where
  "Canonicalize c =
     (let n = (of_char c :: nat) in if 97 \<le> n \<and> n \<le> 122 then char_of (n - 32) else c)"

fun matchHere :: "string \<Rightarrow> string \<Rightarrow> bool" where
  "matchHere [] s = True"
| "matchHere (p # ps) [] = False"
| "matchHere (p # ps) (c # cs) = (Canonicalize p = Canonicalize c \<and> matchHere ps cs)"

fun regexTestI :: "string \<Rightarrow> string \<Rightarrow> bool" where
  "regexTestI pat [] = matchHere pat []"
| "regexTestI pat (c # cs) = (matchHere pat (c # cs) \<or> regexTestI pat cs)"

text \<open>\<open>xs.find(pred)?.points ?? 0\<close>\<close>

definition pointsOrZero :: "BehaviorRating option \<Rightarrow> number" where
  "pointsOrZero r = (case r of None \<Rightarrow> 0 | Some b \<Rightarrow> points b)"

definition normalizedRatings :: "BehaviorRating list \<Rightarrow> BehaviorRating list" where
  "normalizedRatings rs =
     [ \<lparr>capacity = ''Institutional Commitment'',
         points = pointsOrZero (find (\<lambda>b. regexTestI ''institutional'' (capacity b)) rs)\<rparr>,
       \<lparr>capacity = ''Collaboration & Teamwork'',
         points = pointsOrZero (find (\<lambda>b. regexTestI ''collaboration'' (capacity b)) rs)\<rparr>,
       \<lparr>capacity = ''Professionalism'',
         points = pointsOrZero (find (\<lambda>b. regexTestI ''professionalism'' (capacity b)) rs)\<rparr>,
       \<lparr>capacity = ''Client Service'',
         points = pointsOrZero (find (\<lambda>b. regexTestI ''client'' (capacity b)) rs)\<rparr>,
       \<lparr>capacity = ''Achieving Results'',
         points = pointsOrZero (find (\<lambda>b. regexTestI ''achieving'' (capacity b)) rs)\<rparr> ]"

text \<open>
  The body of \<open>appraisals.map(a => ...)\<close> in the route: the newest evaluation, or a
  zero-filled one.
\<close>

definition withEvaluation :: "Appraisal \<Rightarrow> AppraisalWithDetails" where
  "withEvaluation a =
     (let latestEval = (case evaluations a of [] \<Rightarrow> None | e # _ \<Rightarrow> Some e);
          ratings = (case latestEval of None \<Rightarrow> []
                     | Some e \<Rightarrow> (case behaviorRatings e of None \<Rightarrow> [] | Some rs \<Rightarrow> rs));
          normalized = normalizedRatings ratings
      in Appraisal.extend a
           (AppraisalWithDetails.fields
             (case latestEval of
                Some e \<Rightarrow>
                  Some \<lparr>behaviorRatings = Some normalized,
                        totalScore = totalScore e,
                        researchPts = researchPts e,
                        universityServicePts = universityServicePts e,
                        communityServicePts = communityServicePts e,
                        teachingQualityPts = teachingQualityPts e\<rparr>
              | None \<Rightarrow>
                  Some \<lparr>behaviorRatings = Some normalized,
                        totalScore = Some 0,
                        researchPts = Some 0,
                        universityServicePts = Some 0,
                        communityServicePts = Some 0,
                        teachingQualityPts = Some 0\<rparr>)))"

definition appraisalsWithEvaluation :: "Appraisal list \<Rightarrow> AppraisalWithDetails list" where
  "appraisalsWithEvaluation appraisals = map withEvaluation appraisals"

section \<open>Client-side completion of the evaluation (department-head table)\<close>

text \<open>
  \<open>result.appraisals.map((a: any) => ({ ...a, evaluation: { ... } }))\<close> in \<open>fetchData\<close>:
  every field of the evaluation is filled in; \<open>a.evaluation?.f ?? d\<close> is \<open>d\<close> when the
  evaluation or its field \<open>f\<close> is absent.
\<close>

definition evalField :: "AppraisalWithDetails \<Rightarrow> (Evaluation \<Rightarrow> 'a option) \<Rightarrow> 'a option" where
  "evalField a f = (case evaluation a of None \<Rightarrow> None | Some e \<Rightarrow> f e)"

definition orElse :: "'a option \<Rightarrow> 'a \<Rightarrow> 'a" where
  "orElse x d = (case x of None \<Rightarrow> d | Some v \<Rightarrow> v)"

definition ensureEvaluation :: "AppraisalWithDetails \<Rightarrow> AppraisalWithDetails" where
  "ensureEvaluation a =
     a\<lparr>evaluation := Some
         \<lparr>behaviorRatings = Some (orElse (evalField a behaviorRatings) []),
          totalScore = Some (orElse (evalField a totalScore) (orElse (appraisalTotalScore a) 0)),
          researchPts = Some (orElse (evalField a researchPts) 0),
          universityServicePts = Some (orElse (evalField a universityServicePts) 0),
          communityServicePts = Some (orElse (evalField a communityServicePts) 0),
          teachingQualityPts = Some (orElse (evalField a teachingQualityPts) 0)\<rparr>\<rparr>"

definition appraisalsWithEval :: "AppraisalWithDetails list \<Rightarrow> AppraisalWithDetails list" where
  "appraisalsWithEval appraisals = map ensureEvaluation appraisals"

section \<open>CSV export (both tables)\<close>

text \<open>
  \<open>+x.toFixed(2)\<close>. \<open>toFixed\<close> returns the plain decimal expansion of a number of
  magnitude \<open>10^21\<close> or more; otherwise it takes the integer \<open>n\<close> for which \<open>n / 100\<close> is
  closest to the magnitude of \<open>x\<close>, the larger one of two, and puts the sign back. The
  unary plus reads the digits as a number again.
\<close>

definition toFixed2 :: "number \<Rightarrow> number" where
  "toFixed2 x =
     (if 10 ^ 21 \<le> \<bar>x\<bar> then x
      else let n = \<lfloor>\<bar>x\<bar> * 100 + 1 / 2\<rfloor>
           in if x < 0 then - (of_int n / 100) else of_int n / 100)"

definition scalePerformance :: "number \<Rightarrow> number" where
  "scalePerformance pts = toFixed2 (pts * 3 / 100)"

definition scaleCapabilities :: "number \<Rightarrow> number" where
  "scaleCapabilities pts = toFixed2 (pts * 7 / 100)"

text \<open>\<open>const evalData = a.evaluation ?? {}\<close>\<close>

definition emptyObject :: Evaluation where
  "emptyObject = \<lparr>behaviorRatings = None, totalScore = None, researchPts = None,
                   universityServicePts = None, communityServicePts = None,
                   teachingQualityPts = None\<rparr>"

definition evalData :: "AppraisalWithDetails \<Rightarrow> Evaluation" where
  "evalData a = orElse (evaluation a) emptyObject"

text \<open>\<open>Array.isArray(evalData.behaviorRatings) ? evalData.behaviorRatings : []\<close>\<close>

definition ratings :: "AppraisalWithDetails \<Rightarrow> BehaviorRating list" where
  "ratings a = (case behaviorRatings (evalData a) of Some rs \<Rightarrow> rs | None \<Rightarrow> [])"

text \<open>\<open>ratings.find(r => r.capacity === capacity)?.points ?? 0\<close>\<close>

definition getPoints :: "BehaviorRating list \<Rightarrow> string \<Rightarrow> number" where
  "getPoints rs cap = pointsOrZero (find (\<lambda>r. capacity r = cap) rs)"

definition rawPerformance :: "AppraisalWithDetails \<Rightarrow> number" where
  "rawPerformance a =
     orElse (researchPts (evalData a)) 0 +
     orElse (universityServicePts (evalData a)) 0 +
     orElse (communityServicePts (evalData a)) 0 +
     orElse (teachingQualityPts (evalData a)) 0"

definition rawCapabilities :: "AppraisalWithDetails \<Rightarrow> number" where
  "rawCapabilities a =
     getPoints (ratings a) ''Institutional Commitment'' +
     getPoints (ratings a) ''Collaboration & Teamwork'' +
     getPoints (ratings a) ''Professionalism'' +
     getPoints (ratings a) ''Client Service'' +
     getPoints (ratings a) ''Achieving Results''"

definition totalPerformanceScaled :: "AppraisalWithDetails \<Rightarrow> number" where
  "totalPerformanceScaled a = scalePerformance (rawPerformance a)"

definition totalCapabilitiesScaled :: "AppraisalWithDetails \<Rightarrow> number" where
  "totalCapabilitiesScaled a = scaleCapabilities (rawCapabilities a)"

definition overallTotalScaled :: "AppraisalWithDetails \<Rightarrow> number" where
  "overallTotalScaled a = toFixed2 ((totalPerformanceScaled a + totalCapabilitiesScaled a) / 2)"

text \<open>
  A row is the object literal the export builds: its keys in the order they are written,
  each with a text or a number.
\<close>

datatype cell = Str string | Num number

type_synonym row = "(string \<times> cell) list"

definition exportRow :: "AppraisalWithDetails \<Rightarrow> row" where
  "exportRow a =
     [ (''Instructor'', Str (facultyName a)),
       (''Research & Scientific Activities '', Num (orElse (researchPts (evalData a)) 0)),
       (''University Service '', Num (orElse (universityServicePts (evalData a)) 0)),
       (''Community Service '', Num (orElse (communityServicePts (evalData a)) 0)),
       (''Quality of Teaching '', Num (orElse (teachingQualityPts (evalData a)) 0)),
       (''Total Performance (out of 100)'', Num (rawPerformance a)),
       (''Total Performance (out of 3)'', Num (totalPerformanceScaled a)),
       (''Institutional Commitment '', Num (getPoints (ratings a) ''Institutional Commitment'')),
       (''Collaboration & Teamwork '', Num (getPoints (ratings a) ''Collaboration & Teamwork'')),
       (''Professionalism '', Num (getPoints (ratings a) ''Professionalism'')),
       (''Client Service '', Num (getPoints (ratings a) ''Client Service'')),
       (''Achieving Results '', Num (getPoints (ratings a) ''Achieving Results'')),
       (''Total Capabilities ( out of 100)'', Num (rawCapabilities a)),
       (''Total Capabilities (out of 7)'', Num (totalCapabilitiesScaled a)),
       (''Overall Total (out of 5)'', Num (overallTotalScaled a)) ]"

text \<open>
  \<open>exportCSV\<close> returns without a file when there is no data or no appraisal
  (\<open>if (!data?.appraisals?.length) return\<close>); otherwise the rows go to the CSV writer.
\<close>

definition exportCSV :: "AppraisalWithDetails list option \<Rightarrow> row list option" where
  "exportCSV data =
     (case data of
        None \<Rightarrow> None
      | Some appraisals \<Rightarrow> if appraisals = [] then None else Some (map exportRow appraisals))"

section \<open>Evaluation-eligibility gate\<close>

text \<open>
  A \<open>Date\<close> holds a time value, the milliseconds since 1970-01-01T00:00Z; the calendar
  functions below are the ones the language standard defines for it. The offset of local
  time, \<open>LocalTZA\<close>, belongs to the host and is a parameter \<open>tza\<close>; so is the clock.
\<close>

definition msPerDay :: int where
  "msPerDay = 86400000"

definition Day :: "int \<Rightarrow> int" where
  "Day t = t div msPerDay"

definition TimeWithinDay :: "int \<Rightarrow> int" where
  "TimeWithinDay t = t mod msPerDay"

text \<open>The day number of a date of the proleptic Gregorian calendar, month from 1 to 12.\<close>

definition daysFromCivil :: "int \<Rightarrow> int \<Rightarrow> int \<Rightarrow> int" where
  "daysFromCivil y m d =
     (let y' = (if m \<le> 2 then y - 1 else y);
          era = y' div 400;
          yoe = y' - era * 400;
          doy = (153 * (if 2 < m then m - 3 else m + 9) + 2) div 5 + d - 1;
          doe = yoe * 365 + yoe div 4 - yoe div 100 + doy
      in era * 146097 + doe - 719468)"

text \<open>Year, month (from 1 to 12) and day of the month of a day number.\<close>

definition civilFromDays :: "int \<Rightarrow> int \<times> int \<times> int" where
  "civilFromDays z0 =
     (let z = z0 + 719468;
          era = z div 146097;
          doe = z - era * 146097;
          yoe = (doe - doe div 1460 + doe div 36524 - doe div 146096) div 365;
          doy = doe - (365 * yoe + yoe div 4 - yoe div 100);
          mp = (5 * doy + 2) div 153;
          d = doy - (153 * mp + 2) div 5 + 1;
          m = (if mp < 10 then mp + 3 else mp - 9);
          y = yoe + era * 400
      in (if m \<le> 2 then y + 1 else y, m, d))"

definition YearFromTime :: "int \<Rightarrow> int" where
  "YearFromTime t = fst (civilFromDays (Day t))"

definition MonthFromTime :: "int \<Rightarrow> int" where
  "MonthFromTime t = fst (snd (civilFromDays (Day t))) - 1"

definition DateFromTime :: "int \<Rightarrow> int" where
  "DateFromTime t = snd (snd (civilFromDays (Day t)))"

definition MakeDay :: "int \<Rightarrow> int \<Rightarrow> int \<Rightarrow> int" where
  "MakeDay year month date =
     daysFromCivil (year + month div 12) (month mod 12 + 1) 1 + date - 1"

definition MakeDate :: "int \<Rightarrow> int \<Rightarrow> int" where
  "MakeDate day time = day * msPerDay + time"

text \<open>\<open>TimeClip\<close>: a time value beyond \<open>8.64 * 10^15\<close> is not a date (\<open>NaN\<close>, here \<open>None\<close>).\<close>

definition TimeClip :: "int \<Rightarrow> int option" where
  "TimeClip t = (if 8640000000000000 < \<bar>t\<bar> then None else Some t)"

definition LocalTime :: "(int \<Rightarrow> bool \<Rightarrow> int) \<Rightarrow> int \<Rightarrow> int" where
  "LocalTime tza t = t + tza t True"

definition UTC :: "(int \<Rightarrow> bool \<Rightarrow> int) \<Rightarrow> int \<Rightarrow> int" where
  "UTC tza t = t - tza t False"

definition getMonth :: "(int \<Rightarrow> bool \<Rightarrow> int) \<Rightarrow> int \<Rightarrow> int" where
  "getMonth tza t = MonthFromTime (LocalTime tza t)"

definition setMonth :: "(int \<Rightarrow> bool \<Rightarrow> int) \<Rightarrow> int \<Rightarrow> int \<Rightarrow> int option" where
  "setMonth tza t0 m =
     (let t = LocalTime tza t0;
          dt = DateFromTime t;
          newDate = MakeDate (MakeDay (YearFromTime t) m dt) (TimeWithinDay t)
      in TimeClip (UTC tza newDate))"

text \<open>
  \<open>oneMonthBeforeEnd.setMonth(oneMonthBeforeEnd.getMonth() - 1)\<close> on a copy of the end date.
\<close>

definition oneMonthBeforeEnd :: "(int \<Rightarrow> bool \<Rightarrow> int) \<Rightarrow> int \<Rightarrow> int option" where
  "oneMonthBeforeEnd tza endDate = setMonth tza endDate (getMonth tza endDate - 1)"


text \<open>Midnight UTC of a calendar date (month from 1 to 12), as \<open>Date.UTC\<close> computes it.\<close>

definition utcMidnight :: "int \<Rightarrow> int \<Rightarrow> int \<Rightarrow> int" where
  "utcMidnight y m d = MakeDate (MakeDay y (m - 1) d) 0"

section \<open>Notions of the specification\<close>

text \<open>
  A keyword is contained in a label as a case-insensitive substring: some run of
  consecutive characters of the label equals the keyword once the ASCII capitals of both
  are put in lower case.
\<close>

definition lowerCase :: "char \<Rightarrow> char" where
  "lowerCase c =
     (let n = (of_char c :: nat) in if 65 \<le> n \<and> n \<le> 90 then char_of (n + 32) else c)"

definition containsIgnoringCase :: "string \<Rightarrow> string \<Rightarrow> bool" where
  "containsIgnoringCase kw s = sublist (map lowerCase kw) (map lowerCase s)"

text \<open>
  \<open>firstMatchOrZero kw rs p\<close>: \<open>p\<close> is the points of the first entry of \<open>rs\<close> whose label
  contains \<open>kw\<close>, or zero when no label does.
\<close>

definition firstMatchOrZero :: "string \<Rightarrow> BehaviorRating list \<Rightarrow> number \<Rightarrow> bool" where
  "firstMatchOrZero kw rs p \<longleftrightarrow>
     (\<exists>i<length rs. containsIgnoringCase kw (capacity (rs ! i)) \<and>
        (\<forall>j<i. \<not> containsIgnoringCase kw (capacity (rs ! j))) \<and> p = points (rs ! i))
     \<or> ((\<forall>b\<in>set rs. \<not> containsIgnoringCase kw (capacity b)) \<and> p = 0)"

text \<open>A label is recognised when it contains one of the five keywords.\<close>

definition recognised :: "string \<Rightarrow> bool" where
  "recognised s \<longleftrightarrow>
     (\<exists>kw\<in>set [''institutional'', ''collaboration'', ''professionalism'', ''client'', ''achieving''].
        containsIgnoringCase kw s)"


text \<open>The five canonical capacity labels.\<close>

definition canonicalCapacities :: "string list" where
  "canonicalCapacities =
     [''Institutional Commitment'', ''Collaboration & Teamwork'', ''Professionalism'',
      ''Client Service'', ''Achieving Results'']"

text \<open>
  The cells of a row under the five capability columns and the raw capability total.
\<close>

definition capabilityCells :: "AppraisalWithDetails \<Rightarrow> cell option list" where
  "capabilityCells a =
     map (map_of (exportRow a))
       [''Institutional Commitment '', ''Collaboration & Teamwork '', ''Professionalism '',
        ''Client Service '', ''Achieving Results '', ''Total Capabilities ( out of 100)'']"

text \<open>The column keys of an export row as the specification lists them.\<close>

definition specColumns :: "string list" where
  "specColumns =
     [''Instructor'', ''Research & Scientific Activities'', ''University Service'',
      ''Community Service'', ''Quality of Teaching'', ''Total Performance (out of 100)'',
      ''Total Performance (out of 3)'', ''Institutional Commitment'',
      ''Collaboration & Teamwork'', ''Professionalism'', ''Client Service'',
      ''Achieving Results'', ''Total Capabilities (out of 100)'',
      ''Total Capabilities (out of 7)'', ''Overall Total (out of 5)'']"

text \<open>A key with its spaces taken out.\<close>

definition withoutSpaces :: "string \<Rightarrow> string" where
  "withoutSpaces s = filter (\<lambda>c. c \<noteq> CHR '' '') s"

text \<open>
  The local time offset of a host whose zone is UTC, and of one three hours ahead of it
  all year.
\<close>

definition utcZone :: "int \<Rightarrow> bool \<Rightarrow> int" where
  "utcZone t isUTC = 0"

definition utcPlus3 :: "int \<Rightarrow> bool \<Rightarrow> int" where
  "utcPlus3 t isUTC = 10800000"

section \<open>The capacity normalizer\<close>

subsection \<open>Matching\<close>

text \<open>\<open>Canonicalize\<close> on the bits of a character: a lower-case letter loses bit 5.\<close>

lemma Canonicalize_Char:
  "Canonicalize (Char b0 b1 b2 b3 b4 b5 b6 b7) =
     (if \<not> b7 \<and> b6 \<and> b5 \<and> (b0 \<or> b1 \<or> b2 \<or> b3 \<or> b4) \<and> \<not> (b4 \<and> b3 \<and> (b2 \<or> (b1 \<and> b0)))
      then Char b0 b1 b2 b3 b4 False b6 b7 else Char b0 b1 b2 b3 b4 b5 b6 b7)"
  by (cases b0; cases b1; cases b2; cases b3; cases b4; cases b5; cases b6; cases b7;
      simp add: Canonicalize_def char_of_def bit_Suc_0_iff)

lemma Canonicalize_lowerCase:
  "Canonicalize a = Canonicalize b \<longleftrightarrow> lowerCase a = lowerCase b"
proof -
  define m where "m = (of_char a :: nat)"
  define n where "n = (of_char b :: nat)"
  have a: "a = char_of m" and b: "b = char_of n" by (simp_all add: m_def n_def)
  have m: "m < 256" and n: "n < 256" by (simp_all add: m_def n_def)
  have om: "of_char (char_of m :: char) = m" and on: "of_char (char_of n :: char) = n"
    using m n by (simp_all add: m_def n_def)
  show ?thesis
    unfolding a b Canonicalize_def lowerCase_def Let_def om on
    using m n by (auto simp: char_of_quasi_inj)
qed

lemma map_Canonicalize_lowerCase:
  "map Canonicalize xs = map Canonicalize ys \<longleftrightarrow> map lowerCase xs = map lowerCase ys"
  by (induction xs ys rule: list_induct2') (simp_all add: Canonicalize_lowerCase)

lemma sublist_map_iff:
  "sublist (map f xs) (map f ys) \<longleftrightarrow> (\<exists>ps w ss. ys = ps @ w @ ss \<and> map f w = map f xs)"
proof
  assume "sublist (map f xs) (map f ys)"
  then obtain ps' ss' where "map f ys = ps' @ map f xs @ ss'"
    by (auto simp: sublist_def)
  then obtain ps rest where ys: "ys = ps @ rest" and rest: "map f xs @ ss' = map f rest"
    unfolding map_eq_append_conv by blast
  from rest obtain w ss where "rest = w @ ss" and "map f w = map f xs"
    unfolding append_eq_map_conv by metis
  with ys show "\<exists>ps w ss. ys = ps @ w @ ss \<and> map f w = map f xs" by blast
next
  assume "\<exists>ps w ss. ys = ps @ w @ ss \<and> map f w = map f xs"
  then obtain ps w ss where "ys = ps @ w @ ss" and "map f w = map f xs" by blast
  then have "map f ys = map f ps @ map f xs @ map f ss" by simp
  then show "sublist (map f xs) (map f ys)" unfolding sublist_def by blast
qed

lemma matchHere_prefix: "matchHere p s \<longleftrightarrow> prefix (map Canonicalize p) (map Canonicalize s)"
  by (induction p s rule: matchHere.induct) auto

lemma regexTestI_sublist:
  "regexTestI p s \<longleftrightarrow> sublist (map Canonicalize p) (map Canonicalize s)"
  by (induction s) (auto simp: matchHere_prefix sublist_Cons_right)

lemma regexTestI_contains: "regexTestI kw s \<longleftrightarrow> containsIgnoringCase kw s"
  by (simp add: regexTestI_sublist containsIgnoringCase_def sublist_map_iff
      map_Canonicalize_lowerCase)

lemma find_firstMatchOrZero:
  "firstMatchOrZero kw rs (pointsOrZero (find (\<lambda>b. regexTestI kw (capacity b)) rs))"
proof (cases "find (\<lambda>b. regexTestI kw (capacity b)) rs")
  case None
  then have "\<forall>b\<in>set rs. \<not> containsIgnoringCase kw (capacity b)"
    by (auto simp: find_None_iff regexTestI_contains)
  with None show ?thesis by (simp add: firstMatchOrZero_def pointsOrZero_def)
next
  case (Some b)
  then obtain i where "i < length rs" "regexTestI kw (capacity (rs ! i))" "b = rs ! i"
    "\<forall>j<i. \<not> regexTestI kw (capacity (rs ! j))"
    by (auto simp: find_Some_iff)
  with Some show ?thesis
    unfolding firstMatchOrZero_def pointsOrZero_def regexTestI_contains by auto
qed

lemma find_filter_weaker:
  "(\<And>x. P x \<Longrightarrow> Q x) \<Longrightarrow> find P (filter Q xs) = find P xs"
  by (induction xs) auto

lemma normalizedRatings_filter_recognised:
  "normalizedRatings (filter (\<lambda>b. recognised (capacity b)) rs) = normalizedRatings rs"
  unfolding normalizedRatings_def
  by (simp add: find_filter_weaker recognised_def regexTestI_contains del: regexTestI.simps)


subsection \<open>The five slots\<close>

text \<open>
  C2: for every list of behavior ratings the normalizer returns exactly five entries, the
  canonical capacities in their fixed order; the points of each are those of the first
  input entry whose label contains the capacity's keyword as a case-insensitive
  substring, and 0 when no entry does; entries with unrecognised labels can be dropped
  without changing the result, and the empty list gives zero everywhere.
\<close>

theorem normalizedRatings_first_match:
  "length (normalizedRatings rs) = 5
   \<and> map capacity (normalizedRatings rs) =
       [''Institutional Commitment'', ''Collaboration & Teamwork'', ''Professionalism'',
        ''Client Service'', ''Achieving Results'']
   \<and> firstMatchOrZero ''institutional'' rs (points (normalizedRatings rs ! 0))
   \<and> firstMatchOrZero ''collaboration'' rs (points (normalizedRatings rs ! 1))
   \<and> firstMatchOrZero ''professionalism'' rs (points (normalizedRatings rs ! 2))
   \<and> firstMatchOrZero ''client'' rs (points (normalizedRatings rs ! 3))
   \<and> firstMatchOrZero ''achieving'' rs (points (normalizedRatings rs ! 4))
   \<and> normalizedRatings (filter (\<lambda>b. recognised (capacity b)) rs) = normalizedRatings rs
   \<and> map points (normalizedRatings []) = [0, 0, 0, 0, 0]"
proof -
  have shape: "length (normalizedRatings rs) = 5"
    "map capacity (normalizedRatings rs) =
       [''Institutional Commitment'', ''Collaboration & Teamwork'', ''Professionalism'',
        ''Client Service'', ''Achieving Results'']"
    by (simp_all add: normalizedRatings_def)
  have slots:
    "points (normalizedRatings rs ! 0) = pointsOrZero (find (\<lambda>b. regexTestI ''institutional'' (capacity b)) rs)"
    "points (normalizedRatings rs ! 1) = pointsOrZero (find (\<lambda>b. regexTestI ''collaboration'' (capacity b)) rs)"
    "points (normalizedRatings rs ! 2) = pointsOrZero (find (\<lambda>b. regexTestI ''professionalism'' (capacity b)) rs)"
    "points (normalizedRatings rs ! 3) = pointsOrZero (find (\<lambda>b. regexTestI ''client'' (capacity b)) rs)"
    "points (normalizedRatings rs ! 4) = pointsOrZero (find (\<lambda>b. regexTestI ''achieving'' (capacity b)) rs)"
    by (simp_all add: normalizedRatings_def nth_Cons' del: regexTestI.simps)
  have empty: "map points (normalizedRatings []) = [0, 0, 0, 0, 0]"
    by (simp add: normalizedRatings_def pointsOrZero_def)
  show ?thesis
    unfolding slots
    using shape empty find_firstMatchOrZero normalizedRatings_filter_recognised by simp
qed

theorem normalizedRatings_first_match_witness:
  "firstMatchOrZero ''client''
     [\<lparr>capacity = ''Other duties'', points = 99\<rparr>,
      \<lparr>capacity = ''CLIENT service quality'', points = 40\<rparr>,
      \<lparr>capacity = ''client'', points = 10\<rparr>] 40
   \<and> map points (normalizedRatings
     [\<lparr>capacity = ''Other duties'', points = 99\<rparr>,
      \<lparr>capacity = ''CLIENT service quality'', points = 40\<rparr>,
      \<lparr>capacity = ''client'', points = 10\<rparr>]) = [0, 0, 0, 40, 0]"
  using normalizedRatings_first_match
    [of "[\<lparr>capacity = ''Other duties'', points = 99\<rparr>,
          \<lparr>capacity = ''CLIENT service quality'', points = 40\<rparr>,
          \<lparr>capacity = ''client'', points = 10\<rparr>]"]
  by (simp add: normalizedRatings_def Canonicalize_Char pointsOrZero_def)

subsection \<open>Idempotence\<close>

lemma canonical_matches_own_keyword:
  "regexTestI ''institutional'' ''Institutional Commitment''"
  "regexTestI ''collaboration'' ''Collaboration & Teamwork''"
  "regexTestI ''professionalism'' ''Professionalism''"
  "regexTestI ''client'' ''Client Service''"
  "regexTestI ''achieving'' ''Achieving Results''"
  by (simp_all add: Canonicalize_Char)

lemma canonical_misses_later_keyword:
  "\<not> regexTestI ''collaboration'' ''Institutional Commitment''"
  "\<not> regexTestI ''professionalism'' ''Institutional Commitment''"
  "\<not> regexTestI ''professionalism'' ''Collaboration & Teamwork''"
  "\<not> regexTestI ''client'' ''Institutional Commitment''"
  "\<not> regexTestI ''client'' ''Collaboration & Teamwork''"
  "\<not> regexTestI ''client'' ''Professionalism''"
  "\<not> regexTestI ''achieving'' ''Institutional Commitment''"
  "\<not> regexTestI ''achieving'' ''Collaboration & Teamwork''"
  "\<not> regexTestI ''achieving'' ''Professionalism''"
  "\<not> regexTestI ''achieving'' ''Client Service''"
  by (simp_all add: Canonicalize_Char)

text \<open>
  C8: the normalizer is idempotent. Each canonical label contains its own keyword and
  none of the keywords of the capacities after it, so normalizing the five entries again
  finds each entry in its own slot and keeps its points.
\<close>

theorem normalizedRatings_idempotent:
  "normalizedRatings (normalizedRatings rs) = normalizedRatings rs"
  unfolding normalizedRatings_def [of "[_, _, _, _, _]"]
  by (simp add: canonical_matches_own_keyword canonical_misses_later_keyword
      pointsOrZero_def normalizedRatings_def del: regexTestI.simps)

section \<open>The evaluation selector\<close>

lemma withEvaluation_keeps_fields:
  "facultyName (withEvaluation a) = facultyName a"
  "status (withEvaluation a) = status a"
  "cycleEndDate (withEvaluation a) = cycleEndDate a"
  "appraisalTotalScore (withEvaluation a) = appraisalTotalScore a"
  "evaluations (withEvaluation a) = evaluations a"
  by (simp_all add: withEvaluation_def Let_def Appraisal.defs AppraisalWithDetails.defs)

lemma evaluation_withEvaluation_Nil:
  "evaluations a = [] \<Longrightarrow>
   evaluation (withEvaluation a) =
     Some \<lparr>behaviorRatings = Some (normalizedRatings []), totalScore = Some 0,
           researchPts = Some 0, universityServicePts = Some 0,
           communityServicePts = Some 0, teachingQualityPts = Some 0\<rparr>"
  by (simp add: withEvaluation_def Let_def Appraisal.defs AppraisalWithDetails.defs)

lemma evaluation_withEvaluation_Cons:
  "evaluations a = e # older \<Longrightarrow>
   evaluation (withEvaluation a) =
     Some \<lparr>behaviorRatings = Some (normalizedRatings (orElse (behaviorRatings e) [])),
           totalScore = totalScore e,
           researchPts = researchPts e, universityServicePts = universityServicePts e,
           communityServicePts = communityServicePts e,
           teachingQualityPts = teachingQualityPts e\<rparr>"
  by (simp add: withEvaluation_def Let_def Appraisal.defs AppraisalWithDetails.defs orElse_def)

lemma normalizedRatings_Nil:
  "normalizedRatings [] =
     [\<lparr>capacity = ''Institutional Commitment'', points = 0\<rparr>,
      \<lparr>capacity = ''Collaboration & Teamwork'', points = 0\<rparr>,
      \<lparr>capacity = ''Professionalism'', points = 0\<rparr>,
      \<lparr>capacity = ''Client Service'', points = 0\<rparr>,
      \<lparr>capacity = ''Achieving Results'', points = 0\<rparr>]"
  by (simp add: normalizedRatings_def pointsOrZero_def)

text \<open>
  C3: an appraisal without evaluations gets an evaluation field all the same, with the
  four category points and the total score 0 and the five canonical ratings at 0 points;
  an appraisal with evaluations gets the fields of the one at index 0, its ratings
  normalized, and the evaluations after it change nothing.
\<close>

theorem latest_evaluation_or_zero:
  "evaluation (withEvaluation a) \<noteq> None
   \<and> (evaluations a = [] \<longrightarrow>
        evaluation (withEvaluation a) =
          Some \<lparr>behaviorRatings =
                   Some [\<lparr>capacity = ''Institutional Commitment'', points = 0\<rparr>,
                         \<lparr>capacity = ''Collaboration & Teamwork'', points = 0\<rparr>,
                         \<lparr>capacity = ''Professionalism'', points = 0\<rparr>,
                         \<lparr>capacity = ''Client Service'', points = 0\<rparr>,
                         \<lparr>capacity = ''Achieving Results'', points = 0\<rparr>],
                totalScore = Some 0, researchPts = Some 0, universityServicePts = Some 0,
                communityServicePts = Some 0, teachingQualityPts = Some 0\<rparr>)
   \<and> (\<forall>e older. evaluations a = e # older \<longrightarrow>
        evaluation (withEvaluation a) =
          Some \<lparr>behaviorRatings = Some (normalizedRatings (orElse (behaviorRatings e) [])),
                totalScore = totalScore e, researchPts = researchPts e,
                universityServicePts = universityServicePts e,
                communityServicePts = communityServicePts e,
                teachingQualityPts = teachingQualityPts e\<rparr>
        \<and> evaluation (withEvaluation a) = evaluation (withEvaluation (a\<lparr>evaluations := [e]\<rparr>)))"
proof -
  have present: "evaluation (withEvaluation a) \<noteq> None"
    by (cases "evaluations a")
      (simp_all add: evaluation_withEvaluation_Nil evaluation_withEvaluation_Cons)
  have older: "evaluation (withEvaluation a) = evaluation (withEvaluation (a\<lparr>evaluations := [e]\<rparr>))"
    if "evaluations a = e # older" for e older
    using that by (simp add: evaluation_withEvaluation_Cons)
  show ?thesis
    using present older
    by (simp add: evaluation_withEvaluation_Nil evaluation_withEvaluation_Cons
        normalizedRatings_Nil)
qed

theorem latest_evaluation_or_zero_witness:
  "evaluation (withEvaluation
      \<lparr>facultyName = ''A'', status = NEW, cycleEndDate = 0, appraisalTotalScore = None,
       evaluations =
         [\<lparr>behaviorRatings = Some [\<lparr>capacity = ''Professionalism'', points = 70\<rparr>],
           totalScore = Some 88, researchPts = Some 90, universityServicePts = None,
           communityServicePts = Some 60, teachingQualityPts = Some 75\<rparr>,
          \<lparr>behaviorRatings = Some [\<lparr>capacity = ''Professionalism'', points = 5\<rparr>],
           totalScore = Some 1, researchPts = Some 2, universityServicePts = Some 3,
           communityServicePts = Some 4, teachingQualityPts = Some 5\<rparr>]\<rparr>)
   = Some \<lparr>behaviorRatings =
             Some [\<lparr>capacity = ''Institutional Commitment'', points = 0\<rparr>,
                   \<lparr>capacity = ''Collaboration & Teamwork'', points = 0\<rparr>,
                   \<lparr>capacity = ''Professionalism'', points = 70\<rparr>,
                   \<lparr>capacity = ''Client Service'', points = 0\<rparr>,
                   \<lparr>capacity = ''Achieving Results'', points = 0\<rparr>],
           totalScore = Some 88, researchPts = Some 90, universityServicePts = None,
           communityServicePts = Some 60, teachingQualityPts = Some 75\<rparr>
   \<and> evaluation (withEvaluation
      \<lparr>facultyName = ''B'', status = NEW, cycleEndDate = 0, appraisalTotalScore = None,
       evaluations = []\<rparr>)
   = Some \<lparr>behaviorRatings =
             Some [\<lparr>capacity = ''Institutional Commitment'', points = 0\<rparr>,
                   \<lparr>capacity = ''Collaboration & Teamwork'', points = 0\<rparr>,
                   \<lparr>capacity = ''Professionalism'', points = 0\<rparr>,
                   \<lparr>capacity = ''Client Service'', points = 0\<rparr>,
                   \<lparr>capacity = ''Achieving Results'', points = 0\<rparr>],
           totalScore = Some 0, researchPts = Some 0, universityServicePts = Some 0,
           communityServicePts = Some 0, teachingQualityPts = Some 0\<rparr>"
  using latest_evaluation_or_zero
    [of "\<lparr>facultyName = ''A'', status = NEW, cycleEndDate = 0, appraisalTotalScore = None,
       evaluations =
         [\<lparr>behaviorRatings = Some [\<lparr>capacity = ''Professionalism'', points = 70\<rparr>],
           totalScore = Some 88, researchPts = Some 90, universityServicePts = None,
           communityServicePts = Some 60, teachingQualityPts = Some 75\<rparr>,
          \<lparr>behaviorRatings = Some [\<lparr>capacity = ''Professionalism'', points = 5\<rparr>],
           totalScore = Some 1, researchPts = Some 2, universityServicePts = Some 3,
           communityServicePts = Some 4, teachingQualityPts = Some 5\<rparr>]\<rparr>"]
    latest_evaluation_or_zero
    [of "\<lparr>facultyName = ''B'', status = NEW, cycleEndDate = 0, appraisalTotalScore = None,
       evaluations = []\<rparr>"]
  by (simp add: normalizedRatings_def pointsOrZero_def orElse_def Canonicalize_Char)

section \<open>Batches\<close>

text \<open>
  C9: the batch keeps the order of its input: the output is as long as the input, the
  output at each index is the view of the input at that index and of nothing else, so
  \<open>[a, b, c]\<close> comes out as the views of \<open>a\<close>, \<open>b\<close>, \<open>c\<close> in this order.
\<close>

theorem batch_preserves_order:
  "length (appraisalsWithEvaluation appraisals) = length appraisals
   \<and> (\<forall>i<length appraisals.
        appraisalsWithEvaluation appraisals ! i = withEvaluation (appraisals ! i))
   \<and> appraisalsWithEvaluation [a, b, c] = [withEvaluation a, withEvaluation b, withEvaluation c]
   \<and> appraisalsWithEvaluation (xs @ ys) = appraisalsWithEvaluation xs @ appraisalsWithEvaluation ys"
  by (simp add: appraisalsWithEvaluation_def)

theorem batch_preserves_order_witness:
  "map facultyName (appraisalsWithEvaluation
     [\<lparr>facultyName = ''A'', status = NEW, cycleEndDate = 0, appraisalTotalScore = None,
       evaluations = []\<rparr>,
      \<lparr>facultyName = ''B'', status = SENT, cycleEndDate = 0, appraisalTotalScore = None,
       evaluations = []\<rparr>,
      \<lparr>facultyName = ''C'', status = COMPLETE, cycleEndDate = 0, appraisalTotalScore = None,
       evaluations = []\<rparr>]) = [''A'', ''B'', ''C'']
   \<and> facultyName (appraisalsWithEvaluation
     [\<lparr>facultyName = ''A'', status = NEW, cycleEndDate = 0, appraisalTotalScore = None,
       evaluations = []\<rparr>,
      \<lparr>facultyName = ''B'', status = SENT, cycleEndDate = 0, appraisalTotalScore = None,
       evaluations = []\<rparr>,
      \<lparr>facultyName = ''C'', status = COMPLETE, cycleEndDate = 0, appraisalTotalScore = None,
       evaluations = []\<rparr>] ! 1) = ''B''"
  using batch_preserves_order
    [of "[\<lparr>facultyName = ''A'', status = NEW, cycleEndDate = 0, appraisalTotalScore = None,
       evaluations = []\<rparr>,
      \<lparr>facultyName = ''B'', status = SENT, cycleEndDate = 0, appraisalTotalScore = None,
       evaluations = []\<rparr>,
      \<lparr>facultyName = ''C'', status = COMPLETE, cycleEndDate = 0, appraisalTotalScore = None,
       evaluations = []\<rparr>]"]
  by (simp add: withEvaluation_keeps_fields)

section \<open>Exact label lookup of the export\<close>

lemma getPoints_no_exact_match:
  "\<forall>r\<in>set rs. capacity r \<noteq> cap \<Longrightarrow> getPoints rs cap = 0"
  by (simp add: getPoints_def pointsOrZero_def find_None_iff [THEN iffD2])

lemma getPoints_filter:
  "cap \<in> S \<Longrightarrow> getPoints (filter (\<lambda>r. capacity r \<in> S) rs) cap = getPoints rs cap"
  unfolding getPoints_def by (induction rs) auto

lemma getPoints_skip:
  "capacity r \<noteq> cap \<Longrightarrow> getPoints (xs @ r # ys) cap = getPoints (xs @ ys) cap"
  unfolding getPoints_def by (induction xs) auto

lemma ratings_Some:
  "evaluation a = Some e \<Longrightarrow> behaviorRatings e = Some rs \<Longrightarrow> ratings a = rs"
  by (simp add: ratings_def evalData_def orElse_def)

lemma canonicalCapacities_member:
  "''Institutional Commitment'' \<in> set canonicalCapacities"
  "''Collaboration & Teamwork'' \<in> set canonicalCapacities"
  "''Professionalism'' \<in> set canonicalCapacities"
  "''Client Service'' \<in> set canonicalCapacities"
  "''Achieving Results'' \<in> set canonicalCapacities"
  by (simp_all add: canonicalCapacities_def)

lemma capabilityCells_eq:
  "capabilityCells a =
     [Some (Num (getPoints (ratings a) ''Institutional Commitment'')),
      Some (Num (getPoints (ratings a) ''Collaboration & Teamwork'')),
      Some (Num (getPoints (ratings a) ''Professionalism'')),
      Some (Num (getPoints (ratings a) ''Client Service'')),
      Some (Num (getPoints (ratings a) ''Achieving Results'')),
      Some (Num (rawCapabilities a))]"
  by (simp add: capabilityCells_def exportRow_def)

text \<open>
  C10: the export looks a capacity up by equality of the whole label, not by keyword: a
  rating whose label is not exactly the canonical one adds nothing to that capacity's
  column (the list with and without it give the same points); when no label of the list
  is exactly canonical, the five capability columns and the raw capability total are 0;
  and dropping every rating whose label is not exactly canonical leaves those cells as
  they were.
\<close>

theorem export_matches_labels_exactly:
  "getPoints rs cap = (case find (\<lambda>r. capacity r = cap) rs of None \<Rightarrow> 0 | Some r \<Rightarrow> points r)
   \<and> (capacity r \<noteq> cap \<longrightarrow> getPoints (xs @ r # ys) cap = getPoints (xs @ ys) cap)
   \<and> (evaluation a = Some e \<and> behaviorRatings e = Some rs
        \<and> (\<forall>r\<in>set rs. capacity r \<notin> set canonicalCapacities) \<longrightarrow>
          rawCapabilities a = 0
          \<and> capabilityCells a =
              [Some (Num 0), Some (Num 0), Some (Num 0), Some (Num 0), Some (Num 0), Some (Num 0)])
   \<and> capabilityCells
        (a\<lparr>evaluation := Some (e\<lparr>behaviorRatings :=
              Some (filter (\<lambda>r. capacity r \<in> set canonicalCapacities) rs)\<rparr>)\<rparr>)
      = capabilityCells (a\<lparr>evaluation := Some (e\<lparr>behaviorRatings := Some rs\<rparr>)\<rparr>)"
proof -
  have skip: "capacity r \<noteq> cap \<longrightarrow> getPoints (xs @ r # ys) cap = getPoints (xs @ ys) cap"
    by (simp add: getPoints_skip)
  have zero: "rawCapabilities a = 0 \<and>
      capabilityCells a =
        [Some (Num 0), Some (Num 0), Some (Num 0), Some (Num 0), Some (Num 0), Some (Num 0)]"
    if "evaluation a = Some e" "behaviorRatings e = Some rs"
      "\<forall>r\<in>set rs. capacity r \<notin> set canonicalCapacities"
  proof -
    have "getPoints rs c = 0" if "c \<in> set canonicalCapacities" for c
      using that \<open>\<forall>r\<in>set rs. capacity r \<notin> set canonicalCapacities\<close>
      by (intro getPoints_no_exact_match) auto
    then have "getPoints (ratings a) c = 0" if "c \<in> set canonicalCapacities" for c
      using that ratings_Some [OF \<open>evaluation a = Some e\<close> \<open>behaviorRatings e = Some rs\<close>]
      by simp
    then show ?thesis
      by (simp add: capabilityCells_eq rawCapabilities_def canonicalCapacities_member)
  qed
  have drop: "capabilityCells
        (a\<lparr>evaluation := Some (e\<lparr>behaviorRatings :=
              Some (filter (\<lambda>r. capacity r \<in> set canonicalCapacities) rs)\<rparr>)\<rparr>)
      = capabilityCells (a\<lparr>evaluation := Some (e\<lparr>behaviorRatings := Some rs\<rparr>)\<rparr>)"
    by (simp add: capabilityCells_eq rawCapabilities_def ratings_def evalData_def orElse_def
        getPoints_filter canonicalCapacities_member)
  show ?thesis
    using skip zero drop by (simp add: getPoints_def pointsOrZero_def)
qed

theorem export_matches_labels_exactly_witness:
  "getPoints [\<lparr>capacity = ''institutional commitment'', points = 50\<rparr>] ''Institutional Commitment'' = 0
   \<and> points (normalizedRatings [\<lparr>capacity = ''institutional commitment'', points = 50\<rparr>] ! 0) = 50
   \<and> rawCapabilities
       \<lparr>facultyName = ''A'', status = SENT, cycleEndDate = 0, appraisalTotalScore = None,
        evaluations = [],
        evaluation = Some \<lparr>behaviorRatings =
            Some [\<lparr>capacity = ''institutional commitment'', points = 50\<rparr>,
                  \<lparr>capacity = ''Client Service '', points = 30\<rparr>],
          totalScore = None, researchPts = None, universityServicePts = None,
          communityServicePts = None, teachingQualityPts = None\<rparr>\<rparr> = 0
   \<and> getPoints [\<lparr>capacity = ''Client  Service'', points = 30\<rparr>,
                \<lparr>capacity = ''Client Service'', points = 20\<rparr>] ''Client Service'' = 20"
  using export_matches_labels_exactly
    [of "[\<lparr>capacity = ''institutional commitment'', points = 50\<rparr>,
          \<lparr>capacity = ''Client Service '', points = 30\<rparr>]"
        "''Institutional Commitment''"
        "\<lparr>capacity = ''Client  Service'', points = 30\<rparr>"
        "[]" "[\<lparr>capacity = ''Client Service'', points = 20\<rparr>]"
        "\<lparr>facultyName = ''A'', status = SENT, cycleEndDate = 0, appraisalTotalScore = None,
        evaluations = [],
        evaluation = Some \<lparr>behaviorRatings =
            Some [\<lparr>capacity = ''institutional commitment'', points = 50\<rparr>,
                  \<lparr>capacity = ''Client Service '', points = 30\<rparr>],
          totalScore = None, researchPts = None, universityServicePts = None,
          communityServicePts = None, teachingQualityPts = None\<rparr>\<rparr>"
        "\<lparr>behaviorRatings =
            Some [\<lparr>capacity = ''institutional commitment'', points = 50\<rparr>,
                  \<lparr>capacity = ''Client Service '', points = 30\<rparr>],
          totalScore = None, researchPts = None, universityServicePts = None,
          communityServicePts = None, teachingQualityPts = None\<rparr>"]
  by (simp add: getPoints_def pointsOrZero_def normalizedRatings_def Canonicalize_Char
      canonicalCapacities_def)

section \<open>Raw totals\<close>

lemma evalData_field:
  "researchPts (evalData a) = evalField a researchPts"
  "universityServicePts (evalData a) = evalField a universityServicePts"
  "communityServicePts (evalData a) = evalField a communityServicePts"
  "teachingQualityPts (evalData a) = evalField a teachingQualityPts"
  "behaviorRatings (evalData a) = evalField a behaviorRatings"
  by (simp_all add: evalData_def evalField_def orElse_def emptyObject_def split: option.split)

lemma ratings_evalField: "ratings a = orElse (evalField a behaviorRatings) []"
  by (simp add: ratings_def evalData_field orElse_def)

lemma getPoints_normalizedRatings:
  "getPoints (normalizedRatings rs) ''Institutional Commitment'' = points (normalizedRatings rs ! 0)"
  "getPoints (normalizedRatings rs) ''Collaboration & Teamwork'' = points (normalizedRatings rs ! 1)"
  "getPoints (normalizedRatings rs) ''Professionalism'' = points (normalizedRatings rs ! 2)"
  "getPoints (normalizedRatings rs) ''Client Service'' = points (normalizedRatings rs ! 3)"
  "getPoints (normalizedRatings rs) ''Achieving Results'' = points (normalizedRatings rs ! 4)"
  by (simp_all add: getPoints_def normalizedRatings_def pointsOrZero_def del: regexTestI.simps)

lemma sum_points_normalizedRatings:
  "sum_list (map points (normalizedRatings rs)) =
     points (normalizedRatings rs ! 0) + points (normalizedRatings rs ! 1) +
     points (normalizedRatings rs ! 2) + points (normalizedRatings rs ! 3) +
     points (normalizedRatings rs ! 4)"
  by (simp add: normalizedRatings_def del: regexTestI.simps)

lemma rawCapabilities_normalized:
  "evalField a behaviorRatings = Some (normalizedRatings rs) \<Longrightarrow>
   rawCapabilities a = sum_list (map points (normalizedRatings rs))"
  by (simp add: rawCapabilities_def ratings_evalField orElse_def getPoints_normalizedRatings
      sum_points_normalizedRatings)

lemma evalField_ensureEvaluation_ratings:
  "evalField (ensureEvaluation a) behaviorRatings = Some (orElse (evalField a behaviorRatings) [])"
  by (simp add: ensureEvaluation_def evalField_def)

lemma evalField_withEvaluation_ratings:
  "\<exists>rs. evalField (withEvaluation p) behaviorRatings = Some (normalizedRatings rs)"
  by (cases "evaluations p")
    (auto simp: evalField_def evaluation_withEvaluation_Nil evaluation_withEvaluation_Cons)

text \<open>
  C5: the raw performance total is the plain sum of the four category points, each 0
  when the evaluation or the field is absent, and the raw capability total is the plain
  sum of the points of the five normalized ratings, as they reach the export from the
  route through the client; nothing is divided or averaged: four categories of 100 give
  400. Both totals are the cells of their columns.
\<close>

theorem raw_totals_are_sums:
  "rawPerformance a =
     orElse (evalField a researchPts) 0 + orElse (evalField a universityServicePts) 0 +
     orElse (evalField a communityServicePts) 0 + orElse (evalField a teachingQualityPts) 0
   \<and> (evalField a behaviorRatings = Some (normalizedRatings rs) \<longrightarrow>
        rawCapabilities a = sum_list (map points (normalizedRatings rs)))
   \<and> (\<exists>rs'. evalField (ensureEvaluation (withEvaluation p)) behaviorRatings
               = Some (normalizedRatings rs')
          \<and> rawCapabilities (ensureEvaluation (withEvaluation p))
               = sum_list (map points (normalizedRatings rs')))
   \<and> (evalField a researchPts = Some 100 \<and> evalField a universityServicePts = Some 100
        \<and> evalField a communityServicePts = Some 100 \<and> evalField a teachingQualityPts = Some 100
        \<longrightarrow> rawPerformance a = 400)
   \<and> map_of (exportRow a) ''Total Performance (out of 100)'' = Some (Num (rawPerformance a))
   \<and> map_of (exportRow a) ''Total Capabilities ( out of 100)'' = Some (Num (rawCapabilities a))"
proof -
  have perf: "rawPerformance a =
     orElse (evalField a researchPts) 0 + orElse (evalField a universityServicePts) 0 +
     orElse (evalField a communityServicePts) 0 + orElse (evalField a teachingQualityPts) 0"
    by (simp add: rawPerformance_def evalData_field)
  obtain rs' where rs': "evalField (withEvaluation p) behaviorRatings = Some (normalizedRatings rs')"
    using evalField_withEvaluation_ratings by blast
  then have view: "evalField (ensureEvaluation (withEvaluation p)) behaviorRatings
      = Some (normalizedRatings rs')"
    by (simp add: evalField_ensureEvaluation_ratings orElse_def)
  then have pipeline: "\<exists>rs'. evalField (ensureEvaluation (withEvaluation p)) behaviorRatings
               = Some (normalizedRatings rs')
          \<and> rawCapabilities (ensureEvaluation (withEvaluation p))
               = sum_list (map points (normalizedRatings rs'))"
    using rawCapabilities_normalized by blast
  have cells: "map_of (exportRow a) ''Total Performance (out of 100)'' = Some (Num (rawPerformance a))"
    "map_of (exportRow a) ''Total Capabilities ( out of 100)'' = Some (Num (rawCapabilities a))"
    by (simp_all add: exportRow_def)
  show ?thesis
    using pipeline cells rawCapabilities_normalized
    by (simp add: perf orElse_def)
qed

theorem raw_totals_are_sums_witness:
  "rawPerformance
     \<lparr>facultyName = ''A'', status = SENT, cycleEndDate = 0, appraisalTotalScore = None,
      evaluations = [],
      evaluation = Some \<lparr>behaviorRatings =
          Some (normalizedRatings [\<lparr>capacity = ''client care'', points = 60\<rparr>,
                                   \<lparr>capacity = ''Achieving results'', points = 80\<rparr>]),
        totalScore = None, researchPts = Some 100, universityServicePts = Some 100,
        communityServicePts = Some 100, teachingQualityPts = Some 100\<rparr>\<rparr> = 400
   \<and> rawCapabilities
     \<lparr>facultyName = ''A'', status = SENT, cycleEndDate = 0, appraisalTotalScore = None,
      evaluations = [],
      evaluation = Some \<lparr>behaviorRatings =
          Some (normalizedRatings [\<lparr>capacity = ''client care'', points = 60\<rparr>,
                                   \<lparr>capacity = ''Achieving results'', points = 80\<rparr>]),
        totalScore = None, researchPts = Some 100, universityServicePts = Some 100,
        communityServicePts = Some 100, teachingQualityPts = Some 100\<rparr>\<rparr> = 140"
proof -
  let ?rs = "[\<lparr>capacity = ''client care'', points = 60\<rparr>,
              \<lparr>capacity = ''Achieving results'', points = 80\<rparr>]"
  let ?a = "\<lparr>facultyName = ''A'', status = SENT, cycleEndDate = 0, appraisalTotalScore = None,
      evaluations = [],
      evaluation = Some \<lparr>behaviorRatings = Some (normalizedRatings ?rs),
        totalScore = None, researchPts = Some 100, universityServicePts = Some 100,
        communityServicePts = Some 100, teachingQualityPts = Some 100\<rparr>\<rparr>"
  have ratings: "evalField ?a behaviorRatings = Some (normalizedRatings ?rs)"
    by (simp add: evalField_def)
  have fields: "evalField ?a researchPts = Some 100 \<and> evalField ?a universityServicePts = Some 100
      \<and> evalField ?a communityServicePts = Some 100 \<and> evalField ?a teachingQualityPts = Some 100"
    by (simp add: evalField_def)
  have total: "sum_list (map points (normalizedRatings ?rs)) = 140"
    by (simp add: normalizedRatings_def pointsOrZero_def Canonicalize_Char)
  from raw_totals_are_sums [of ?a ?rs] ratings fields
  have "rawPerformance ?a = 400"
    and "rawCapabilities ?a = sum_list (map points (normalizedRatings ?rs))"
    by blast+
  with total show ?thesis by simp
qed

section \<open>Columns of the export\<close>

text \<open>
  C6, as stated, fails: the keys of a row are not the listed names character for
  character.
\<close>

theorem export_columns_counterexample:
  "map fst (exportRow
     \<lparr>facultyName = ''A'', status = SENT, cycleEndDate = 0, appraisalTotalScore = None,
      evaluations = [], evaluation = None\<rparr>) \<noteq> specColumns"
  by (simp add: exportRow_def specColumns_def)

text \<open>
  C6, amended: every export row has exactly these fifteen distinct keys in this order;
  nine of them end in a space and the raw capability total has a space after its opening
  parenthesis, and with the spaces taken out the keys are the listed names with theirs
  taken out. Every row of one export has the same keys.
\<close>

theorem export_columns:
  "map fst (exportRow a) =
     [''Instructor'', ''Research & Scientific Activities '', ''University Service '',
      ''Community Service '', ''Quality of Teaching '', ''Total Performance (out of 100)'',
      ''Total Performance (out of 3)'', ''Institutional Commitment '',
      ''Collaboration & Teamwork '', ''Professionalism '', ''Client Service '',
      ''Achieving Results '', ''Total Capabilities ( out of 100)'',
      ''Total Capabilities (out of 7)'', ''Overall Total (out of 5)'']
   \<and> length (exportRow a) = 15
   \<and> distinct (map fst (exportRow a))
   \<and> map withoutSpaces (map fst (exportRow a)) = map withoutSpaces specColumns
   \<and> (\<forall>rows. exportCSV data = Some rows \<longrightarrow>
        (\<forall>r\<in>set rows. map fst r = map fst (exportRow a)))"
proof -
  have keys: "map fst (exportRow b) =
     [''Instructor'', ''Research & Scientific Activities '', ''University Service '',
      ''Community Service '', ''Quality of Teaching '', ''Total Performance (out of 100)'',
      ''Total Performance (out of 3)'', ''Institutional Commitment '',
      ''Collaboration & Teamwork '', ''Professionalism '', ''Client Service '',
      ''Achieving Results '', ''Total Capabilities ( out of 100)'',
      ''Total Capabilities (out of 7)'', ''Overall Total (out of 5)'']" for b
    by (simp add: exportRow_def)
  have len: "length (exportRow a) = 15"
    by (simp add: exportRow_def)
  have dist: "distinct (map fst (exportRow a))"
    unfolding keys by simp
  have nosp: "map withoutSpaces (map fst (exportRow a)) = map withoutSpaces specColumns"
    unfolding keys by (simp add: specColumns_def withoutSpaces_def)
  have rows: "\<forall>r\<in>set rows. map fst r = map fst (exportRow a)"
    if "exportCSV data = Some rows" for rows
    using that by (auto simp: exportCSV_def keys split: option.splits if_splits)
  show ?thesis
    using keys len dist nosp rows by blast
qed

theorem export_columns_witness:
  "exportCSV (Some [\<lparr>facultyName = ''A'', status = SENT, cycleEndDate = 0,
        appraisalTotalScore = None, evaluations = [], evaluation = None\<rparr>])
     = Some [exportRow \<lparr>facultyName = ''A'', status = SENT, cycleEndDate = 0,
        appraisalTotalScore = None, evaluations = [], evaluation = None\<rparr>]
   \<and> map fst (exportRow \<lparr>facultyName = ''A'', status = SENT, cycleEndDate = 0,
        appraisalTotalScore = None, evaluations = [], evaluation = None\<rparr>) ! 1
       = ''Research & Scientific Activities ''"
  using export_columns
    [of "\<lparr>facultyName = ''A'', status = SENT, cycleEndDate = 0,
        appraisalTotalScore = None, evaluations = [], evaluation = None\<rparr>"
        "Some [\<lparr>facultyName = ''A'', status = SENT, cycleEndDate = 0,
        appraisalTotalScore = None, evaluations = [], evaluation = None\<rparr>]"]
  by (simp add: exportCSV_def)

section \<open>Scaling and the overall score\<close>







section \<open>Gaps in the input\<close>








section \<open>The eligibility gate\<close>


lemma civilFromDays_values:
  "civilFromDays 0 = (1970, 1, 1)"
  "civilFromDays 19904 = (2024, 6, 30)"
  "civilFromDays 19782 = (2024, 2, 29)"
  "civilFromDays (- 1) = (1969, 12, 31)"
  by code_simp+


text \<open>
  The month before 31 March 2024 has no 31st day: \<open>setMonth\<close> rolls over into 2 March.
  Three hours ahead of UTC the window of 30 June 2024 starts at the same instant.
\<close>

lemma oneMonthBeforeEnd_offset:
  "oneMonthBeforeEnd utcPlus3 1719705600000 = Some 1717027200000"
  by code_simp

lemma oneMonthBeforeEnd_rollover:
  "oneMonthBeforeEnd utcZone (utcMidnight 2024 3 31) = Some (utcMidnight 2024 3 2)"
  by code_simp




end
